theory Spec2Isabelle
  imports Main "HOL-Library.Word"
begin

section \<open>Python values used by \<open>src/api/models.py\<close>\<close>

text \<open>
  A Python \<open>str\<close> is a sequence of Unicode code points, a \<open>bytes\<close> object a sequence
  of octets.  Code points are natural numbers below \<open>0x110000\<close>; the surrogates
  \<open>0xD800..0xDFFF\<close> may occur in a \<open>str\<close> (for instance after \<open>json.loads\<close>).
\<close>

type_synonym codepoint = nat
type_synonym str = "codepoint list"
type_synonym byte = "8 word"
type_synonym bytes = "byte list"

text \<open>An ASCII literal of the source, read as a \<open>str\<close>.\<close>

definition ascii :: "string \<Rightarrow> str" where
  "ascii cs = map of_char cs"

text \<open>
  The exceptions that the modelled methods can raise.  \<open>ValueError\<close> carries the
  message of the \<open>raise\<close> statement; \<open>AttributeError\<close> the name of the missing attribute.
\<close>

datatype exn =
    ValueError string
  | AttributeError string
  | UnicodeEncodeError
  | IntegrityError

text \<open>
  What \<open>except ValueError\<close> catches: \<open>UnicodeEncodeError\<close> is a subclass of
  \<open>ValueError\<close>, the other two are not.
\<close>

fun is_ValueError :: "exn \<Rightarrow> bool" where
  "is_ValueError (ValueError msg) = True"
| "is_ValueError UnicodeEncodeError = True"
| "is_ValueError (AttributeError a) = False"
| "is_ValueError IntegrityError = False"

text \<open>How a call ends: it returns a value or an exception propagates to the caller.\<close>

datatype 'a outcome = Returns 'a | Raises exn

subsection \<open>\<open>str.encode('utf-8')\<close>\<close>

text \<open>
  The strict UTF-8 codec: one to four octets per code point, and
  \<open>UnicodeEncodeError\<close> ("surrogates not allowed") on a surrogate.
\<close>

definition utf8_codepoint :: "codepoint \<Rightarrow> bytes option" where
  "utf8_codepoint c =
     (if c < 0x80 then Some [of_nat c]
      else if c < 0x800 then Some [of_nat (0xC0 + c div 64), of_nat (0x80 + c mod 64)]
      else if 0xD800 \<le> c \<and> c \<le> 0xDFFF then None
      else if c < 0x10000 then
        Some [of_nat (0xE0 + c div 4096), of_nat (0x80 + (c div 64) mod 64),
              of_nat (0x80 + c mod 64)]
      else
        Some [of_nat (0xF0 + c div 262144), of_nat (0x80 + (c div 4096) mod 64),
              of_nat (0x80 + (c div 64) mod 64), of_nat (0x80 + c mod 64)])"

fun encode_utf8 :: "str \<Rightarrow> bytes outcome" where
  "encode_utf8 [] = Returns []"
| "encode_utf8 (c # cs) =
     (case utf8_codepoint c of
        None \<Rightarrow> Raises UnicodeEncodeError
      | Some bs \<Rightarrow>
          (case encode_utf8 cs of
             Raises e \<Rightarrow> Raises e
           | Returns rest \<Rightarrow> Returns (bs @ rest)))"

text \<open>A \<open>str\<close> with a surrogate code point is the one that \<open>encode\<close> refuses.\<close>

definition has_surrogate :: "str \<Rightarrow> bool" where
  "has_surrogate s = list_ex (\<lambda>c. 0xD800 \<le> c \<and> c \<le> 0xDFFF) s"

subsection \<open>The Unicode character database\<close>

text \<open>
  The regular expressions of \<open>re\<close> are compiled from \<open>str\<close> patterns, so \<open>\w\<close> and
  \<open>\d\<close> are the Unicode categories.  Their tables belong to the interpreter, not to
  this repository: on ASCII they are written out, beyond ASCII they are a parameter.
  \<open>ucd_isalnum\<close> is \<open>Py_UNICODE_ISALNUM\<close>, \<open>ucd_decimal\<close> is \<open>Py_UNICODE_TODECIMAL\<close>
  (\<open>None\<close> for a code point that is no decimal digit).
\<close>

record ucd =
  ucd_isalnum :: "codepoint \<Rightarrow> bool"
  ucd_decimal :: "codepoint \<Rightarrow> nat option"

definition ascii_alnum :: "codepoint \<Rightarrow> bool" where
  "ascii_alnum c = ((48 \<le> c \<and> c \<le> 57) \<or> (65 \<le> c \<and> c \<le> 90) \<or> (97 \<le> c \<and> c \<le> 122))"

definition uni_isalnum :: "ucd \<Rightarrow> codepoint \<Rightarrow> bool" where
  "uni_isalnum db c = (if c < 128 then ascii_alnum c else ucd_isalnum db c)"

text \<open>\<open>SRE_UNI_IS_WORD\<close>: alphanumeric or the underscore.\<close>

definition uni_isword :: "ucd \<Rightarrow> codepoint \<Rightarrow> bool" where
  "uni_isword db c = (uni_isalnum db c \<or> c = 95)"

text \<open>The decimal value of a code point of category Nd.\<close>

definition uni_todecimal :: "ucd \<Rightarrow> codepoint \<Rightarrow> nat option" where
  "uni_todecimal db c =
     (if c < 128 then (if 48 \<le> c \<and> c \<le> 57 then Some (c - 48) else None)
      else ucd_decimal db c)"

definition uni_isdigit :: "ucd \<Rightarrow> codepoint \<Rightarrow> bool" where
  "uni_isdigit db c = (uni_todecimal db c \<noteq> None)"

text \<open>
  The database on the Latin-1 block, as Unicode defines it there (letters, the
  superscript digits and the vulgar fractions are alphanumeric; no decimal digit lies
  beyond ASCII), and empty above \<open>0xFF\<close>.  It is used to run examples only.
\<close>

definition latin1_db :: ucd where
  "latin1_db =
     \<lparr>ucd_isalnum = (\<lambda>c. c \<in> {0xAA, 0xB2, 0xB3, 0xB5, 0xB9, 0xBA, 0xBC, 0xBD, 0xBE} \<or>
                          (0xC0 \<le> c \<and> c \<le> 0xD6) \<or> (0xD8 \<le> c \<and> c \<le> 0xF6) \<or>
                          (0xF8 \<le> c \<and> c \<le> 0xFF)),
      ucd_decimal = (\<lambda>c. None)\<rparr>"

subsection \<open>\<open>re.match\<close> on the pattern of \<open>validate_email\<close>\<close>

text \<open>
  The parsed form of a pattern, with the opcodes that \<open>sre_parse\<close> produces for
  \<open>^[\w\.-]+@[\w\.-]+\.\w+$\<close>.  \<open>MAX_REPEAT_IN items\<close> is
  \<open>MAX_REPEAT (1, MAXREPEAT, [IN items])\<close>, a character set followed by \<open>+\<close>.
\<close>

datatype set_item = CATEGORY_WORD | SET_LITERAL codepoint

datatype sre_op =
    AT_BEGINNING
  | AT_END
  | LITERAL codepoint
  | MAX_REPEAT_IN "set_item list"

fun in_item :: "ucd \<Rightarrow> set_item \<Rightarrow> codepoint \<Rightarrow> bool" where
  "in_item db CATEGORY_WORD c = uni_isword db c"
| "in_item db (SET_LITERAL l) c = (c = l)"

definition in_set :: "ucd \<Rightarrow> set_item list \<Rightarrow> codepoint \<Rightarrow> bool" where
  "in_set db items c = list_ex (\<lambda>i. in_item db i c) items"

text \<open>
  \<open>sre_match db ops pos rest\<close>: the pattern \<open>ops\<close> matches at position \<open>pos\<close> of the
  subject, whose text from \<open>pos\<close> on is \<open>rest\<close>.  The matcher backtracks (the greedy
  repeat tries the longer match first), so it finds a match whenever one exists.
  Without \<open>re.MULTILINE\<close>, \<open>^\<close> matches at position 0 only and \<open>$\<close> matches at the
  end of the subject and before a line feed that ends the subject.  A match need not
  consume the subject: \<open>re.match\<close> anchors the start only.
\<close>

fun sre_match :: "ucd \<Rightarrow> sre_op list \<Rightarrow> nat \<Rightarrow> str \<Rightarrow> bool" where
  "sre_match db [] pos rest = True"
| "sre_match db (AT_BEGINNING # ops) pos rest = (pos = 0 \<and> sre_match db ops pos rest)"
| "sre_match db (AT_END # ops) pos rest =
     ((rest = [] \<or> rest = [10]) \<and> sre_match db ops pos rest)"
| "sre_match db (LITERAL l # ops) pos [] = False"
| "sre_match db (LITERAL l # ops) pos (c # cs) = (c = l \<and> sre_match db ops (Suc pos) cs)"
| "sre_match db (MAX_REPEAT_IN items # ops) pos [] = False"
| "sre_match db (MAX_REPEAT_IN items # ops) pos (c # cs) =
     (in_set db items c \<and>
      (sre_match db (MAX_REPEAT_IN items # ops) (Suc pos) cs \<or> sre_match db ops (Suc pos) cs))"

definition re_match :: "ucd \<Rightarrow> sre_op list \<Rightarrow> str \<Rightarrow> bool" where
  "re_match db pattern subject = sre_match db pattern 0 subject"

section \<open>The \<open>User\<close> model\<close>

text \<open>
  The primary keys \<open>id\<close> of the three classes are the fields \<open>User_id\<close>,
  \<open>Event_id\<close> and \<open>Signedup_events_id\<close>, and the column \<open>type\<close> of an event is
  \<open>event_type\<close>; every other field has the name of its column.
  \<open>password\<close> is declared a string column and assigned the \<open>bytes\<close> of the derived
  key by \<open>set_password\<close>; \<open>salt\<close> is no column but an instance attribute that exists
  only once \<open>set_password\<close> has assigned it (\<open>None\<close>: the attribute is missing).
\<close>

datatype password_value = PasswordNone | PasswordStr str | PasswordBytes bytes

record user =
  User_id :: int
  username :: str
  password :: password_value
  email :: str
  first_name :: str
  last_name :: str
  followed_users :: int
  users_following_me :: int
  salt :: "bytes option"

definition email_regex :: "sre_op list" where
  "email_regex =
     [AT_BEGINNING,
      MAX_REPEAT_IN [CATEGORY_WORD, SET_LITERAL 46, SET_LITERAL 45],
      LITERAL 64,
      MAX_REPEAT_IN [CATEGORY_WORD, SET_LITERAL 46, SET_LITERAL 45],
      LITERAL 46,
      MAX_REPEAT_IN [CATEGORY_WORD],
      AT_END]"

text \<open>
  \<^verbatim>\<open>
  def validate_email(self, email):
      regex = r'^[\w\.-]+@[\w\.-]+\.\w+$'
      return re.match(regex, email) is not None

  def set_email(self, email):
      if not self.validate_email(email):
          raise ValueError("Invalid email address")
      self.email = email
  \<close>
  A method that assigns to \<open>self\<close> returns how the call ends together with the object
  after the call, also when it raises.
\<close>

definition validate_email :: "ucd \<Rightarrow> str \<Rightarrow> bool" where
  "validate_email db e = re_match db email_regex e"

definition set_email :: "ucd \<Rightarrow> user \<Rightarrow> str \<Rightarrow> unit outcome \<times> user" where
  "set_email db u e =
     (if \<not> validate_email db e then (Raises (ValueError ''Invalid email address''), u)
      else (Returns (), u\<lparr>email := e\<rparr>))"

subsection \<open>Passwords\<close>

text \<open>
  \<open>os.urandom n\<close> returns \<open>n\<close> octets of the operating system's entropy.  The
  entropy still to be delivered is a sequence of octets; a call takes its first \<open>n\<close>.
\<close>

type_synonym entropy = "nat \<Rightarrow> byte"

definition os_urandom :: "nat \<Rightarrow> entropy \<Rightarrow> bytes \<times> entropy" where
  "os_urandom n ent = (map ent [0..<n], (\<lambda>i. ent (n + i)))"

text \<open>
  \<open>hashlib.pbkdf2_hmac('sha256', password, salt, iterations)\<close> belongs to the standard
  library; the methods take it as the parameter \<open>kdf\<close>, applied to the password octets,
  the salt and the iteration count.
\<close>

type_synonym kdf = "bytes \<Rightarrow> bytes \<Rightarrow> nat \<Rightarrow> bytes"

text \<open>
  \<^verbatim>\<open>
  def set_password(self, password):
      self.salt = os.urandom(32)
      hashed_password = hashlib.pbkdf2_hmac('sha256', password.encode('utf-8'), self.salt, 100000)
      self.password = hashed_password

  def check_password(self, password):
      hashed_password = hashlib.pbkdf2_hmac('sha256', password.encode('utf-8'), self.salt, 100000)
      return hashed_password == self.password
  \<close>
  \<open>set_password\<close> assigns the salt first; the arguments of the derivation are
  evaluated afterwards, so a password that cannot be encoded leaves the new salt
  behind and the old hash in place.
\<close>

definition set_password :: "kdf \<Rightarrow> user \<Rightarrow> str \<Rightarrow> entropy \<Rightarrow> unit outcome \<times> user \<times> entropy" where
  "set_password pbkdf2_hmac u pw ent =
     (case os_urandom 32 ent of
        (s, ent') \<Rightarrow>
          (let u1 = u\<lparr>salt := Some s\<rparr> in
           case encode_utf8 pw of
             Raises e \<Rightarrow> (Raises e, u1, ent')
           | Returns data \<Rightarrow>
               (Returns (), u1\<lparr>password := PasswordBytes (pbkdf2_hmac data s 100000)\<rparr>, ent')))"

text \<open>
  \<open>check_password\<close> evaluates \<open>password.encode('utf-8')\<close> before it reads
  \<open>self.salt\<close>; the comparison \<open>==\<close> of the derived \<open>bytes\<close> with a stored value
  that is not \<open>bytes\<close> is false.
\<close>

definition check_password :: "kdf \<Rightarrow> user \<Rightarrow> str \<Rightarrow> bool outcome" where
  "check_password pbkdf2_hmac u pw =
     (case encode_utf8 pw of
        Raises e \<Rightarrow> Raises e
      | Returns data \<Rightarrow>
          (case salt u of
             None \<Rightarrow> Raises (AttributeError ''salt'')
           | Some s \<Rightarrow> Returns (PasswordBytes (pbkdf2_hmac data s 100000) = password u)))"


text \<open>
  A stand-in derivation, used to run examples only: the salt followed by the
  password octets.  Every theorem is stated for an arbitrary \<open>kdf\<close>.
\<close>

definition example_kdf :: kdf where
  "example_kdf data s n = s @ data"

subsection \<open>Serialisation\<close>

record datetime =
  year :: nat
  month :: nat
  day :: nat
  hour :: nat
  minute :: nat
  second :: nat

datatype py_value =
    PyNone
  | PyInt int
  | PyStr str
  | PyBool bool
  | PyDatetime datetime

text \<open>
  A \<open>dict\<close> display: the items in the order written, the keys string literals.
  Each \<open>serialize\<close> returns the display of its columns, for instance
  \<^verbatim>\<open>
  def serialize(self):
      return {
          "id": self.id,
          "user_id": self.user_id,
          "event_id": self.event_id,
      }
  \<close>
  for a signup; the result comes with the object after the call.
\<close>

type_synonym py_dict = "(string \<times> py_value) list"

definition User_serialize :: "user \<Rightarrow> py_dict \<times> user" where
  "User_serialize u =
     ([(''id'', PyInt (User_id u)),
       (''username'', PyStr (username u)),
       (''email'', PyStr (email u)),
       (''first_name'', PyStr (first_name u)),
       (''last_name'', PyStr (last_name u)),
       (''followed_users'', PyInt (followed_users u)),
       (''users_following_me'', PyInt (users_following_me u))], u)"

section \<open>The \<open>Event\<close> model\<close>

datatype event_type_enum = nature | party | culture | relax | family | sport
datatype language_enum = spanish | catalan | english | german | french
datatype gender_selection_enum = female_only | queer_only | all_genders | no_preferences
datatype price_type_enum = free | paid

fun event_type_str :: "event_type_enum \<Rightarrow> str" where
  "event_type_str nature = ascii ''nature''"
| "event_type_str party = ascii ''party''"
| "event_type_str culture = ascii ''culture''"
| "event_type_str relax = ascii ''relax''"
| "event_type_str family = ascii ''family''"
| "event_type_str sport = ascii ''sport''"

fun language_str :: "language_enum \<Rightarrow> str" where
  "language_str spanish = ascii ''spanish''"
| "language_str catalan = ascii ''catalan''"
| "language_str english = ascii ''english''"
| "language_str german = ascii ''german''"
| "language_str french = ascii ''french''"

fun gender_str :: "gender_selection_enum \<Rightarrow> str" where
  "gender_str female_only = ascii ''female_only''"
| "gender_str queer_only = ascii ''queer_only''"
| "gender_str all_genders = ascii ''all_genders''"
| "gender_str no_preferences = ascii ''no_preferences''"

fun price_type_str :: "price_type_enum \<Rightarrow> str" where
  "price_type_str free = ascii ''free''"
| "price_type_str paid = ascii ''paid''"

text \<open>
  \<open>date\<close> is declared an integer column; \<open>set_date\<close> assigns it the \<open>datetime\<close> that
  \<open>strptime\<close> returns.  The columns without \<open>nullable=False\<close> may hold \<open>None\<close>.
\<close>

datatype date_value = DateInt int | DateDatetime datetime

record event =
  Event_id :: int
  user_owner :: int
  name :: str
  event_type :: event_type_enum
  date :: date_value
  place :: str
  duration :: int
  description :: str
  language :: language_enum
  gender :: gender_selection_enum
  price_type :: price_type_enum
  price :: "int option"
  min_age :: "int option"
  max_age :: "int option"
  min_people :: "int option"
  max_people :: "int option"
  lgtbi :: bool
  pet_friendly :: bool
  kid_friendly :: bool

subsection \<open>\<open>datetime.strptime(date_str, '%d-%m-%Y')\<close>\<close>

text \<open>
  \<open>strptime\<close> belongs to the standard library.  Its exceptions are all
  \<open>ValueError\<close>s; their messages are abridged here.
  \<open>_strptime\<close> turns the format into the regular expression
  \<open>(?P<d>3[0-1]|[1-2]\d|0[1-9]|[1-9]| [1-9])-(?P<m>1[0-2]|0[1-9]|[1-9])-(?P<Y>\d\d\d\d)\<close>,
  takes the first match at the start of the text, and refuses text left over after
  it.  A matcher returns its matches in the order in which the backtracking engine
  tries them, each with the text it consumed and the text that remains.
\<close>

type_synonym matcher = "str \<Rightarrow> (str \<times> str) list"

definition re_range :: "codepoint \<Rightarrow> codepoint \<Rightarrow> matcher" where
  "re_range lo hi s = (case s of [] \<Rightarrow> [] | c # cs \<Rightarrow> if lo \<le> c \<and> c \<le> hi then [([c], cs)] else [])"

definition re_literal :: "codepoint \<Rightarrow> matcher" where
  "re_literal l = re_range l l"

definition re_digit :: "ucd \<Rightarrow> matcher" where
  "re_digit db s = (case s of [] \<Rightarrow> [] | c # cs \<Rightarrow> if uni_isdigit db c then [([c], cs)] else [])"

definition re_seq :: "matcher \<Rightarrow> matcher \<Rightarrow> matcher" where
  "re_seq p q s = concat (map (\<lambda>(a, r). map (\<lambda>(b, r'). (a @ b, r')) (q r)) (p s))"

definition re_branch :: "matcher list \<Rightarrow> matcher" where
  "re_branch ps s = concat (map (\<lambda>p. p s) ps)"

definition directive_d :: "ucd \<Rightarrow> matcher" where
  "directive_d db =
     re_branch [re_seq (re_literal 51) (re_range 48 49),
                re_seq (re_range 49 50) (re_digit db),
                re_seq (re_literal 48) (re_range 49 57),
                re_range 49 57,
                re_seq (re_literal 32) (re_range 49 57)]"

definition directive_m :: matcher where
  "directive_m =
     re_branch [re_seq (re_literal 49) (re_range 48 50),
                re_seq (re_literal 48) (re_range 49 57),
                re_range 49 57]"

definition directive_Y :: "ucd \<Rightarrow> matcher" where
  "directive_Y db = re_seq (re_digit db) (re_seq (re_digit db) (re_seq (re_digit db) (re_digit db)))"

text \<open>The groups \<open>d\<close>, \<open>m\<close> and \<open>Y\<close> of every match, with the text after the match.\<close>

definition format_regex_matches :: "ucd \<Rightarrow> str \<Rightarrow> (str \<times> str \<times> str \<times> str) list" where
  "format_regex_matches db s =
     concat (map (\<lambda>(d, r1).
       concat (map (\<lambda>(h1, r2).
         concat (map (\<lambda>(m, r3).
           concat (map (\<lambda>(h2, r4).
             map (\<lambda>(y, r5). (d, m, y, r5)) (directive_Y db r4))
           (re_literal 45 r3)))
         (directive_m r2)))
       (re_literal 45 r1)))
     (directive_d db s))"

text \<open>
  \<open>int\<close> on a matched group: leading blanks are skipped, the digits are decimal
  digits of any script.  \<open>None\<close> stands for the \<open>ValueError\<close> of an invalid literal.
\<close>

fun int_digits :: "ucd \<Rightarrow> nat \<Rightarrow> str \<Rightarrow> nat option" where
  "int_digits db acc [] = Some acc"
| "int_digits db acc (c # cs) =
     (case uni_todecimal db c of
        None \<Rightarrow> None
      | Some v \<Rightarrow> int_digits db (acc * 10 + v) cs)"

definition py_int :: "ucd \<Rightarrow> str \<Rightarrow> nat option" where
  "py_int db s =
     (let t = dropWhile (\<lambda>c. c = 32) s in
      if t = [] then None else int_digits db 0 t)"

definition is_leap :: "nat \<Rightarrow> bool" where
  "is_leap y = (y mod 4 = 0 \<and> (y mod 100 \<noteq> 0 \<or> y mod 400 = 0))"

definition days_in_month :: "nat \<Rightarrow> nat \<Rightarrow> nat" where
  "days_in_month y m =
     (if m = 2 \<and> is_leap y then 29
      else [31, 28, 31, 30, 31, 30, 31, 31, 30, 31, 30, 31] ! (m - 1))"

text \<open>The constructor of \<open>datetime\<close> checks the fields (\<open>MINYEAR = 1\<close>, \<open>MAXYEAR = 9999\<close>).\<close>

definition datetime_new :: "nat \<Rightarrow> nat \<Rightarrow> nat \<Rightarrow> datetime outcome" where
  "datetime_new y m d =
     (if \<not> (1 \<le> y \<and> y \<le> 9999) then Raises (ValueError ''year is out of range'')
      else if \<not> (1 \<le> m \<and> m \<le> 12) then Raises (ValueError ''month must be in 1..12'')
      else if \<not> (1 \<le> d \<and> d \<le> days_in_month y m) then
        Raises (ValueError ''day is out of range for month'')
      else Returns \<lparr>year = y, month = m, day = d, hour = 0, minute = 0, second = 0\<rparr>)"

definition strptime :: "ucd \<Rightarrow> str \<Rightarrow> datetime outcome" where
  "strptime db s =
     (case format_regex_matches db s of
        [] \<Rightarrow> Raises (ValueError ''time data does not match format'')
      | (d, m, y, rest) # others \<Rightarrow>
          if rest \<noteq> [] then Raises (ValueError ''unconverted data remains'')
          else
            (case (py_int db y, py_int db m, py_int db d) of
               (Some yy, Some mm, Some dd) \<Rightarrow> datetime_new yy mm dd
             | _ \<Rightarrow> Raises (ValueError ''invalid literal for int()'')))"

subsection \<open>The methods of \<open>Event\<close>\<close>

text \<open>
  \<^verbatim>\<open>
  def validate_date(self, date_str):
      try:
          datetime.strptime(date_str, '%d-%m-%Y')
          return True
      except ValueError:
          return False

  def set_date(self, date_str):
      if not self.validate_date(date_str):
          raise ValueError("Invalid date format. Date should be in the format 'DD-MM-YYYY'")
      self.date = datetime.strptime(date_str, '%d-%m-%Y')
  \<close>
  \<open>validate_date\<close> catches \<open>ValueError\<close> and its subclasses, nothing else.
\<close>

definition validate_date :: "ucd \<Rightarrow> str \<Rightarrow> bool outcome" where
  "validate_date db date_str =
     (case strptime db date_str of
        Returns dt \<Rightarrow> Returns True
      | Raises x \<Rightarrow> if is_ValueError x then Returns False else Raises x)"

definition date_format_message :: string where
  "date_format_message =
     ''Invalid date format. Date should be in the format '' @ [CHR 0x27] @ ''DD-MM-YYYY'' @ [CHR 0x27]"

definition set_date :: "ucd \<Rightarrow> event \<Rightarrow> str \<Rightarrow> unit outcome \<times> event" where
  "set_date db e date_str =
     (case validate_date db date_str of
        Raises x \<Rightarrow> (Raises x, e)
      | Returns ok \<Rightarrow>
          if \<not> ok then (Raises (ValueError date_format_message), e)
          else
            (case strptime db date_str of
               Raises x \<Rightarrow> (Raises x, e)
             | Returns dt \<Rightarrow> (Returns (), e\<lparr>date := DateDatetime dt\<rparr>)))"

text \<open>
  \<^verbatim>\<open>
  def validate_age_range(self):
      if self.min_age is not None and self.max_age is not None:
          if self.min_age > self.max_age:
              raise ValueError("min_age must be less than or equal to max_age")

  def validate_people_range(self):
      if self.min_people is not None and self.max_people is not None:
          if self.min_people > self.max_people:
              raise ValueError("min_people must be less than or equal to max_people")

  def save(self):
      self.validate_age_range()
      self.validate_people_range()
      db.session.add(self)
      db.session.commit()
  \<close>
\<close>

definition validate_age_range :: "event \<Rightarrow> unit outcome \<times> event" where
  "validate_age_range e =
     (case (min_age e, max_age e) of
        (Some lo, Some hi) \<Rightarrow>
          if lo > hi then (Raises (ValueError ''min_age must be less than or equal to max_age''), e)
          else (Returns (), e)
      | _ \<Rightarrow> (Returns (), e))"

definition validate_people_range :: "event \<Rightarrow> unit outcome \<times> event" where
  "validate_people_range e =
     (case (min_people e, max_people e) of
        (Some lo, Some hi) \<Rightarrow>
          if lo > hi then
            (Raises (ValueError ''min_people must be less than or equal to max_people''), e)
          else (Returns (), e)
      | _ \<Rightarrow> (Returns (), e))"

text \<open>
  \<open>db.session\<close> is the storage collaborator.  The session is the list of the calls
  issued to it so far, oldest first; what \<open>commit\<close> answers is the collaborator's
  business and a parameter of \<open>save\<close>: a function of the calls issued, the commit
  included.
\<close>

datatype session_call = Add event | Commit

type_synonym session = "session_call list"
type_synonym storage = "session \<Rightarrow> unit outcome"

definition save :: "storage \<Rightarrow> event \<Rightarrow> session \<Rightarrow> unit outcome \<times> event \<times> session" where
  "save db e ses =
     (case validate_age_range e of
        (Raises x, e1) \<Rightarrow> (Raises x, e1, ses)
      | (Returns _, e1) \<Rightarrow>
          (case validate_people_range e1 of
             (Raises x, e2) \<Rightarrow> (Raises x, e2, ses)
           | (Returns _, e2) \<Rightarrow>
               (let ses1 = ses @ [Add e2];
                    ses2 = ses1 @ [Commit]
                in (db ses2, e2, ses2))))"

text \<open>
  \<^verbatim>\<open>
  __table_args__ = (
  db.CheckConstraint('min_age >= 0', name='event_min_age_positive'),
  db.CheckConstraint('max_age >= min_age', name='event_max_age_greater_than_min_age'),
  db.CheckConstraint('min_people >= 0', name='event_min_people_positive'),
  db.CheckConstraint('max_people >= min_people', name='event_max_people_greater_than_min_people')
  )
  \<close>
  \<open>__table_args__\<close>: the four \<open>CheckConstraint\<close>s declared for the table.  They are
  SQL conditions, which the database evaluates when a row is written; a condition on
  a \<open>NULL\<close> column is not violated.
\<close>

definition sql_ge :: "int option \<Rightarrow> int option \<Rightarrow> bool" where
  "sql_ge a b = (case (a, b) of (Some x, Some y) \<Rightarrow> x \<ge> y | _ \<Rightarrow> True)"

definition table_args :: "event \<Rightarrow> bool" where
  "table_args e =
     (sql_ge (min_age e) (Some 0) \<and>
      sql_ge (max_age e) (min_age e) \<and>
      sql_ge (min_people e) (Some 0) \<and>
      sql_ge (max_people e) (min_people e))"

definition py_opt_int :: "int option \<Rightarrow> py_value" where
  "py_opt_int v = (case v of None \<Rightarrow> PyNone | Some i \<Rightarrow> PyInt i)"

definition py_date :: "date_value \<Rightarrow> py_value" where
  "py_date v = (case v of DateInt i \<Rightarrow> PyInt i | DateDatetime dt \<Rightarrow> PyDatetime dt)"

definition Event_serialize :: "event \<Rightarrow> py_dict \<times> event" where
  "Event_serialize e =
     ([(''id'', PyInt (Event_id e)),
       (''user_owner'', PyInt (user_owner e)),
       (''name'', PyStr (name e)),
       (''type'', PyStr (event_type_str (event_type e))),
       (''date'', py_date (date e)),
       (''place'', PyStr (place e)),
       (''duration'', PyInt (duration e)),
       (''description'', PyStr (description e)),
       (''language'', PyStr (language_str (language e))),
       (''gender'', PyStr (gender_str (gender e))),
       (''price_type'', PyStr (price_type_str (price_type e))),
       (''price'', py_opt_int (price e)),
       (''min_age'', py_opt_int (min_age e)),
       (''max_age'', py_opt_int (max_age e)),
       (''min_people'', py_opt_int (min_people e)),
       (''max_people'', py_opt_int (max_people e)),
       (''lgtbi'', PyBool (lgtbi e)),
       (''pet_friendly'', PyBool (pet_friendly e)),
       (''kid_friendly'', PyBool (kid_friendly e))], e)"

section \<open>The \<open>Signedup_events\<close> model\<close>

record signedup_events =
  Signedup_events_id :: int
  user_id :: int
  event_id :: int

definition Signedup_events_serialize :: "signedup_events \<Rightarrow> py_dict \<times> signedup_events" where
  "Signedup_events_serialize r =
     ([(''id'', PyInt (Signedup_events_id r)),
       (''user_id'', PyInt (user_id r)),
       (''event_id'', PyInt (event_id r))], r)"

section \<open>The reading of the specification\<close>

text \<open>
  The specification glosses the pattern of \<open>validate_email\<close> as: a local part and a
  domain part of ASCII word characters, dots and hyphens, an \<open>@\<close> between them, and a
  last segment of ASCII word characters after a dot.  This predicate follows those
  words; it is compared with \<open>validate_email\<close> below.
\<close>

definition spec_word_char :: "codepoint \<Rightarrow> bool" where
  "spec_word_char c = (ascii_alnum c \<or> c = 95)"

definition spec_email_pattern :: "str \<Rightarrow> bool" where
  "spec_email_pattern s =
     (\<exists>local domain tld.
        s = local @ [64] @ domain @ [46] @ tld \<and>
        local \<noteq> [] \<and> list_all (\<lambda>c. spec_word_char c \<or> c = 46 \<or> c = 45) local \<and>
        domain \<noteq> [] \<and> list_all (\<lambda>c. spec_word_char c \<or> c = 46 \<or> c = 45) domain \<and>
        tld \<noteq> [] \<and> list_all spec_word_char tld)"

text \<open>
  The specification, like the message of \<open>set_date\<close>, asks for \<open>DD-MM-YYYY\<close>: a
  two-digit day, a two-digit month and a four-digit year, with hyphens between them.
\<close>

definition spec_date_shape :: "ucd \<Rightarrow> str \<Rightarrow> bool" where
  "spec_date_shape db s =
     (\<exists>d1 d2 m1 m2 y1 y2 y3 y4.
        s = [d1, d2, 45, m1, m2, 45, y1, y2, y3, y4] \<and>
        list_all (uni_isdigit db) [d1, d2, m1, m2, y1, y2, y3, y4])"

text \<open>
  What the pattern accepts under \<open>re.match\<close>: the word characters are Unicode's, and
  one line feed may follow the last segment.
\<close>

definition email_char :: "ucd \<Rightarrow> codepoint \<Rightarrow> bool" where
  "email_char db c = (uni_isword db c \<or> c = 46 \<or> c = 45)"

definition email_shape :: "ucd \<Rightarrow> str \<Rightarrow> bool" where
  "email_shape db s =
     (\<exists>local domain tld nl.
        s = local @ [64] @ domain @ [46] @ tld @ nl \<and>
        local \<noteq> [] \<and> list_all (email_char db) local \<and>
        domain \<noteq> [] \<and> list_all (email_char db) domain \<and>
        tld \<noteq> [] \<and> list_all (uni_isword db) tld \<and>
        (nl = [] \<or> nl = [10]))"

section \<open>Example inputs\<close>

text \<open>
  A user as loaded from the database (the hash column holds text, and there is no
  \<open>salt\<close> attribute) and an entropy source that never repeats within 256 octets.
\<close>

definition example_user :: user where
  "example_user =
     \<lparr>User_id = 1, username = ascii ''ada'', password = PasswordStr (ascii ''secret''),
      email = ascii ''ada@example.org'', first_name = ascii ''Ada'',
      last_name = ascii ''Lovelace'', followed_users = 0, users_following_me = 0,
      salt = None\<rparr>"

definition counting_entropy :: entropy where
  "counting_entropy = (\<lambda>i. of_nat i)"

text \<open>
  An event whose ranges are in order, a storage collaborator that accepts every
  commit, and one that enforces the declared check constraints on every row added.
\<close>

definition example_event :: event where
  "example_event =
     \<lparr>Event_id = 7, user_owner = 1, name = ascii ''Hike'', event_type = nature,
      date = DateInt 0, place = ascii ''Montserrat'', duration = 4,
      description = ascii ''A walk'', language = catalan, gender = all_genders,
      price_type = free, price = None, min_age = Some 10, max_age = Some 18,
      min_people = Some 2, max_people = Some 5, lgtbi = True, pet_friendly = True,
      kid_friendly = False\<rparr>"

definition accepting_storage :: storage where
  "accepting_storage = (\<lambda>ses. Returns ())"

fun added :: "session \<Rightarrow> event list" where
  "added [] = []"
| "added (Add e # calls) = e # added calls"
| "added (Commit # calls) = added calls"

definition checking_storage :: storage where
  "checking_storage = (\<lambda>ses. if list_all table_args (added ses) then Returns () else Raises IntegrityError)"

text \<open>A storage collaborator enforces the check constraints when no commit of a row that violates them returns.\<close>

definition enforces_checks :: "storage \<Rightarrow> bool" where
  "enforces_checks db = (\<forall>ses e. db (ses @ [Add e, Commit]) = Returns () \<longrightarrow> table_args e)"

section \<open>Properties of \<open>validate_email\<close>\<close>

lemma in_set_email: "in_set db [CATEGORY_WORD, SET_LITERAL 46, SET_LITERAL 45] = email_char db"
  by (rule ext) (auto simp: in_set_def email_char_def)

lemma in_set_word: "in_set db [CATEGORY_WORD] = uni_isword db"
  by (rule ext) (simp add: in_set_def)

lemma sre_match_literal:
  "sre_match db (LITERAL l # ops) pos rest = (\<exists>cs. rest = l # cs \<and> sre_match db ops (Suc pos) cs)"
  by (cases rest) auto

lemma sre_match_repeat:
  "sre_match db (MAX_REPEAT_IN items # ops) pos rest =
     (\<exists>ys zs. rest = ys @ zs \<and> ys \<noteq> [] \<and> list_all (in_set db items) ys \<and>
        sre_match db ops (pos + length ys) zs)"
proof (induction rest arbitrary: pos)
  case Nil
  then show ?case by simp
next
  case (Cons c cs)
  show ?case
  proof
    assume m: "sre_match db (MAX_REPEAT_IN items # ops) pos (c # cs)"
    then have c: "in_set db items c" by simp
    from m consider "sre_match db (MAX_REPEAT_IN items # ops) (Suc pos) cs"
      | "sre_match db ops (Suc pos) cs" by auto
    then show "\<exists>ys zs. c # cs = ys @ zs \<and> ys \<noteq> [] \<and> list_all (in_set db items) ys \<and>
        sre_match db ops (pos + length ys) zs"
    proof cases
      case 1
      then obtain ys zs where "cs = ys @ zs" "ys \<noteq> []" "list_all (in_set db items) ys"
        "sre_match db ops (Suc pos + length ys) zs"
        using Cons.IH [of "Suc pos"] by blast
      with c show ?thesis
        by (intro exI [of _ "c # ys"] exI [of _ zs]) simp
    next
      case 2
      with c show ?thesis
        by (intro exI [of _ "[c]"] exI [of _ cs]) simp
    qed
  next
    assume "\<exists>ys zs. c # cs = ys @ zs \<and> ys \<noteq> [] \<and> list_all (in_set db items) ys \<and>
        sre_match db ops (pos + length ys) zs"
    then obtain ys zs where e: "c # cs = ys @ zs" and ne: "ys \<noteq> []"
      and a: "list_all (in_set db items) ys" and m: "sre_match db ops (pos + length ys) zs"
      by blast
    from ne obtain y ys' where ys: "ys = y # ys'" by (cases ys) auto
    with e have yc: "y = c" and cs: "cs = ys' @ zs" by auto
    from a ys yc have c: "in_set db items c" and a': "list_all (in_set db items) ys'" by auto
    show "sre_match db (MAX_REPEAT_IN items # ops) pos (c # cs)"
    proof (cases "ys' = []")
      case True
      with m ys cs c show ?thesis by simp
    next
      case False
      with cs a' m ys have "sre_match db (MAX_REPEAT_IN items # ops) (Suc pos) cs"
        using Cons.IH [of "Suc pos"] by auto
      with c show ?thesis by simp
    qed
  qed
qed

lemma validate_email_unfold:
  "validate_email db s =
     (\<exists>l r1. s = l @ r1 \<and> l \<noteq> [] \<and> list_all (email_char db) l \<and>
        (\<exists>r2. r1 = 64 # r2 \<and>
           (\<exists>d r3. r2 = d @ r3 \<and> d \<noteq> [] \<and> list_all (email_char db) d \<and>
              (\<exists>r4. r3 = 46 # r4 \<and>
                 (\<exists>t nl. r4 = t @ nl \<and> t \<noteq> [] \<and> list_all (uni_isword db) t \<and>
                    (nl = [] \<or> nl = [10]))))))"
  unfolding validate_email_def re_match_def email_regex_def
  by (simp add: sre_match_repeat sre_match_literal in_set_email in_set_word)

lemma validate_email_shape: "validate_email db s = email_shape db s"
proof
  assume "validate_email db s"
  then obtain l d t nl where "s = l @ 64 # d @ 46 # t @ nl" "l \<noteq> []" "list_all (email_char db) l"
    "d \<noteq> []" "list_all (email_char db) d" "t \<noteq> []" "list_all (uni_isword db) t"
    "nl = [] \<or> nl = [10]"
    unfolding validate_email_unfold by blast
  then show "email_shape db s"
    unfolding email_shape_def by (intro exI [of _ l] exI [of _ d] exI [of _ t] exI [of _ nl]) simp
next
  assume "email_shape db s"
  then obtain l d t nl where s: "s = l @ [64] @ d @ [46] @ t @ nl" and l: "l \<noteq> []" "list_all (email_char db) l"
    and d: "d \<noteq> []" "list_all (email_char db) d" and t: "t \<noteq> []" "list_all (uni_isword db) t"
    and nl: "nl = [] \<or> nl = [10]"
    unfolding email_shape_def by blast
  have "\<exists>r4. 46 # t @ nl = 46 # r4 \<and>
                 (\<exists>t' nl'. r4 = t' @ nl' \<and> t' \<noteq> [] \<and> list_all (uni_isword db) t' \<and>
                    (nl' = [] \<or> nl' = [10]))"
    using t nl by blast
  then have "\<exists>d' r3. d @ 46 # t @ nl = d' @ r3 \<and> d' \<noteq> [] \<and> list_all (email_char db) d' \<and>
              (\<exists>r4. r3 = 46 # r4 \<and>
                 (\<exists>t nl. r4 = t @ nl \<and> t \<noteq> [] \<and> list_all (uni_isword db) t \<and>
                    (nl = [] \<or> nl = [10])))"
    using d by blast
  then have "\<exists>r2. 64 # d @ 46 # t @ nl = 64 # r2 \<and>
           (\<exists>d r3. r2 = d @ r3 \<and> d \<noteq> [] \<and> list_all (email_char db) d \<and>
              (\<exists>r4. r3 = 46 # r4 \<and>
                 (\<exists>t nl. r4 = t @ nl \<and> t \<noteq> [] \<and> list_all (uni_isword db) t \<and>
                    (nl = [] \<or> nl = [10]))))"
    by blast
  with l s show "validate_email db s"
    unfolding validate_email_unfold by (intro exI [of _ l] exI [of _ "64 # d @ 46 # t @ nl"]) simp
qed


lemma email_shape_at: "email_shape db s \<Longrightarrow> 64 \<in> set s"
  by (auto simp: email_shape_def)

lemma email_shape_dot: "email_shape db s \<Longrightarrow> 46 \<in> set s"
  by (auto simp: email_shape_def)

lemma spec_email_pattern_chars:
  "spec_email_pattern s \<Longrightarrow> list_all (\<lambda>c. spec_word_char c \<or> c = 46 \<or> c = 45 \<or> c = 64) s"
  by (auto simp: spec_email_pattern_def list_all_iff)

lemmas email_eval = validate_email_def re_match_def email_regex_def ascii_def in_set_def
  uni_isword_def uni_isalnum_def ascii_alnum_def

text \<open>
  Claim C3, as the code has it: \<open>validate_email\<close> is true exactly for a text
  \<open>local@domain.tld\<close> whose local and domain parts are non-empty runs of word
  characters, dots and hyphens and whose last segment is a non-empty run of word
  characters, where a word character is any Unicode alphanumeric or the underscore,
  and where one line feed may follow the last segment.  \<open>a.b@c.org\<close> is accepted,
  \<open>not-an-email\<close> is refused, and so is every text without \<open>@\<close> or without a dot.
\<close>

theorem validate_email_pattern:
  "(validate_email db s \<longleftrightarrow> email_shape db s) \<and>
   validate_email db (ascii ''a.b@c.org'') \<and>
   \<not> validate_email db (ascii ''not-an-email'') \<and>
   (64 \<notin> set s \<longrightarrow> \<not> validate_email db s) \<and>
   (46 \<notin> set s \<longrightarrow> \<not> validate_email db s)"
proof -
  have "validate_email db (ascii ''a.b@c.org'')"
    by (simp add: email_eval)
  moreover have "\<not> validate_email db (ascii ''not-an-email'')"
    by (simp add: email_eval)
  ultimately show ?thesis
    using email_shape_at [of db s] email_shape_dot [of db s]
    by (auto simp: validate_email_shape)
qed

theorem validate_email_pattern_witness:
  "email_shape latin1_db (ascii ''a.b@c.org'') \<and>
   64 \<notin> set (ascii ''not-an-email'') \<and>
   46 \<notin> set (ascii ''not-an-email'') \<and>
   \<not> validate_email latin1_db (ascii ''not-an-email'')"
proof -
  have a: "64 \<notin> set (ascii ''not-an-email'')" and d: "46 \<notin> set (ascii ''not-an-email'')"
    by (simp_all add: ascii_def)
  from validate_email_pattern [of latin1_db "ascii ''a.b@c.org''"]
  have "email_shape latin1_db (ascii ''a.b@c.org'')" by blast
  moreover from validate_email_pattern [of latin1_db "ascii ''not-an-email''"] a
  have "\<not> validate_email latin1_db (ascii ''not-an-email'')" by blast
  ultimately show ?thesis using a d by blast
qed

text \<open>
  The claim as stated, with ASCII word characters and nothing after the last
  segment, fails twice: a line feed after the address is accepted, and so is the
  letter U+00F1 in the local part.
\<close>

theorem validate_email_beyond_ascii_pattern:
  "validate_email latin1_db (ascii ''a@b.c'' @ [10]) \<and>
   \<not> spec_email_pattern (ascii ''a@b.c'' @ [10]) \<and>
   validate_email latin1_db ([241] @ ascii ''@a.es'') \<and>
   \<not> spec_email_pattern ([241] @ ascii ''@a.es'')"
proof -
  have "validate_email latin1_db (ascii ''a@b.c'' @ [10])"
    by (simp add: email_eval)
  moreover have "validate_email latin1_db ([241] @ ascii ''@a.es'')"
    by (simp add: email_eval latin1_db_def)
  moreover have "\<not> spec_email_pattern (ascii ''a@b.c'' @ [10])"
    using spec_email_pattern_chars [of "ascii ''a@b.c'' @ [10]"]
    by (auto simp: ascii_def spec_word_char_def ascii_alnum_def)
  moreover have "\<not> spec_email_pattern ([241] @ ascii ''@a.es'')"
    using spec_email_pattern_chars [of "[241] @ ascii ''@a.es''"]
    by (auto simp: ascii_def spec_word_char_def ascii_alnum_def)
  ultimately show ?thesis by blast
qed

section \<open>Properties of the password methods\<close>

lemma utf8_codepoint_None: "utf8_codepoint c = None \<longleftrightarrow> 0xD800 \<le> c \<and> c \<le> 0xDFFF"
  by (simp add: utf8_codepoint_def)

lemma utf8_codepoint_Some: "utf8_codepoint c = Some bs \<Longrightarrow> \<not> (0xD800 \<le> c \<and> c \<le> 0xDFFF)"
  by (auto simp: utf8_codepoint_def split: if_splits)

lemma encode_utf8_Raises:
  "encode_utf8 s = Raises e \<Longrightarrow> e = UnicodeEncodeError \<and> has_surrogate s"
proof (induction s)
  case Nil
  then show ?case by simp
next
  case (Cons c cs)
  then show ?case
    by (auto simp: has_surrogate_def utf8_codepoint_None split: option.splits outcome.splits)
qed

lemma encode_utf8_Returns:
  "encode_utf8 s = Returns data \<Longrightarrow> \<not> has_surrogate s"
proof (induction s arbitrary: data)
  case Nil
  then show ?case by (simp add: has_surrogate_def)
next
  case (Cons c cs)
  then show ?case
    by (auto simp: has_surrogate_def dest: utf8_codepoint_Some split: option.splits outcome.splits)
qed

lemma encode_utf8_surrogate:
  "has_surrogate s \<longleftrightarrow> encode_utf8 s = Raises UnicodeEncodeError"
  using encode_utf8_Raises [of s] encode_utf8_Returns [of s]
  by (cases "encode_utf8 s") auto

lemma set_password_Returns:
  "set_password kdf u p ent = (Returns (), u', ent') \<Longrightarrow>
     \<exists>data. encode_utf8 p = Returns data \<and>
       u' = u\<lparr>salt := Some (map ent [0..<32]),
              password := PasswordBytes (kdf data (map ent [0..<32]) 100000)\<rparr> \<and>
       ent' = (\<lambda>i. ent (32 + i))"
  by (auto simp: set_password_def os_urandom_def Let_def split: outcome.splits)

lemma set_password_encodable:
  "encode_utf8 p = Returns data \<Longrightarrow>
     set_password kdf u p ent =
       (Returns (), u\<lparr>salt := Some (map ent [0..<32]),
              password := PasswordBytes (kdf data (map ent [0..<32]) 100000)\<rparr>,
        (\<lambda>i. ent (32 + i)))"
  by (simp add: set_password_def os_urandom_def Let_def)

lemma set_password_surrogate:
  "has_surrogate p \<Longrightarrow>
     set_password kdf u p ent =
       (Raises UnicodeEncodeError, u\<lparr>salt := Some (map ent [0..<32])\<rparr>, (\<lambda>i. ent (32 + i)))"
  by (simp add: set_password_def os_urandom_def Let_def encode_utf8_surrogate)

text \<open>
  Claim C1: once \<open>set_password p\<close> has returned, \<open>check_password p\<close> returns true,
  and \<open>check_password c\<close> returns false for every candidate \<open>c\<close> whose derivation
  (the UTF-8 octets of \<open>c\<close>, the stored salt, 100000 iterations) differs from the
  stored hash.  \<open>set_password p\<close> returns for every \<open>p\<close> that UTF-8 can encode
  (\<open>set_password_encodable\<close>).
\<close>

theorem password_round_trip:
  assumes "set_password kdf u p ent = (Returns (), u', ent')"
  shows "check_password kdf u' p = Returns True \<and>
    (\<forall>c cd s. encode_utf8 c = Returns cd \<and> salt u' = Some s \<and>
        PasswordBytes (kdf cd s 100000) \<noteq> password u'
      \<longrightarrow> check_password kdf u' c = Returns False)"
proof -
  from assms obtain data where d: "encode_utf8 p = Returns data"
    and u': "u' = u\<lparr>salt := Some (map ent [0..<32]),
              password := PasswordBytes (kdf data (map ent [0..<32]) 100000)\<rparr>"
    using set_password_Returns by blast
  have "check_password kdf u' p = Returns True"
    by (simp add: check_password_def d u')
  moreover have "check_password kdf u' c = Returns False"
    if "encode_utf8 c = Returns cd" "salt u' = Some s" "PasswordBytes (kdf cd s 100000) \<noteq> password u'"
    for c cd s
    using that by (simp add: check_password_def)
  ultimately show ?thesis by blast
qed

lemma ascii_no_surrogate: "encode_utf8 (ascii ''hunter2'') = Returns [104, 117, 110, 116, 101, 114, 50]"
  by (simp add: ascii_def utf8_codepoint_def)

lemma encode_wrong: "encode_utf8 (ascii ''wrong'') = Returns [119, 114, 111, 110, 103]"
  by (simp add: ascii_def utf8_codepoint_def)

theorem password_round_trip_witness:
  "fst (set_password example_kdf example_user (ascii ''hunter2'') counting_entropy) = Returns () \<and>
   check_password example_kdf
     (fst (snd (set_password example_kdf example_user (ascii ''hunter2'') counting_entropy)))
     (ascii ''hunter2'') = Returns True \<and>
   check_password example_kdf
     (fst (snd (set_password example_kdf example_user (ascii ''hunter2'') counting_entropy)))
     (ascii ''wrong'') = Returns False"
proof -
  let ?r = "set_password example_kdf example_user (ascii ''hunter2'') counting_entropy"
  have r: "fst ?r = Returns ()"
    by (simp add: set_password_encodable [OF ascii_no_surrogate])
  then have eq: "?r = (Returns (), fst (snd ?r), snd (snd ?r))"
    by (metis prod.collapse)
  have s: "salt (fst (snd ?r)) = Some (map counting_entropy [0..<32])"
    by (simp add: set_password_encodable [OF ascii_no_surrogate])
  have ne: "PasswordBytes (example_kdf [119, 114, 111, 110, 103] (map counting_entropy [0..<32]) 100000)
      \<noteq> password (fst (snd ?r))"
    by (simp add: set_password_encodable [OF ascii_no_surrogate] example_kdf_def)
  from password_round_trip [OF eq] encode_wrong s ne r show ?thesis by blast
qed






text \<open>
  Claim C10, as the code has it: on a user without the \<open>salt\<close> attribute
  \<open>check_password\<close> never returns a value; it raises \<open>AttributeError\<close> for every
  candidate that UTF-8 can encode and \<open>UnicodeEncodeError\<close> for a candidate with a
  surrogate, since the candidate is encoded before the salt is read.
  \<open>check_password\<close> returns a value exactly when the salt exists and the candidate
  can be encoded.  Every call of \<open>set_password\<close> leaves a salt behind, and neither
  \<open>set_email\<close> nor \<open>serialize\<close> touches it.
\<close>

theorem check_password_needs_salt:
  "(salt u = None \<longrightarrow>
      (\<forall>b. check_password kdf u c \<noteq> Returns b) \<and>
      (\<not> has_surrogate c \<longrightarrow> check_password kdf u c = Raises (AttributeError ''salt'')) \<and>
      (has_surrogate c \<longrightarrow> check_password kdf u c = Raises UnicodeEncodeError)) \<and>
   ((\<exists>b. check_password kdf u c = Returns b) \<longleftrightarrow> salt u \<noteq> None \<and> \<not> has_surrogate c) \<and>
   salt (fst (snd (set_password kdf u p ent))) \<noteq> None \<and>
   salt (snd (set_email db u e)) = salt u \<and>
   salt (snd (User_serialize u)) = salt u"
proof -
  have 1: "check_password kdf u c = Raises UnicodeEncodeError" if "has_surrogate c"
    using that by (simp add: check_password_def encode_utf8_surrogate)
  have 2: "check_password kdf u c = Raises (AttributeError ''salt'')"
    if "\<not> has_surrogate c" "salt u = None"
  proof -
    from that(1) obtain data where "encode_utf8 c = Returns data"
      using encode_utf8_surrogate [of c] encode_utf8_Raises [of c] by (cases "encode_utf8 c") auto
    with that(2) show ?thesis by (simp add: check_password_def)
  qed
  have 3: "\<exists>b. check_password kdf u c = Returns b" if "\<not> has_surrogate c" "salt u = Some s" for s
  proof -
    from that(1) obtain data where "encode_utf8 c = Returns data"
      using encode_utf8_surrogate [of c] encode_utf8_Raises [of c] by (cases "encode_utf8 c") auto
    with that(2) show ?thesis by (simp add: check_password_def)
  qed
  have 4: "salt (fst (snd (set_password kdf u p ent))) \<noteq> None"
    by (simp add: set_password_def os_urandom_def Let_def split: outcome.splits)
  have 5: "salt (snd (set_email db u e)) = salt u" "salt (snd (User_serialize u)) = salt u"
    by (simp_all add: set_email_def User_serialize_def)
  from 1 2 3 4 5 show ?thesis
    by (cases "has_surrogate c"; cases "salt u") auto
qed

theorem check_password_needs_salt_witness:
  "salt example_user = None \<and> \<not> has_surrogate (ascii ''hunter2'') \<and> has_surrogate [0xD800] \<and>
   check_password example_kdf example_user (ascii ''hunter2'') = Raises (AttributeError ''salt'') \<and>
   check_password example_kdf example_user [0xD800] = Raises UnicodeEncodeError \<and>
   salt (fst (snd (set_password example_kdf example_user (ascii ''hunter2'') counting_entropy))) \<noteq> None"
proof -
  have a: "salt example_user = None" by (simp add: example_user_def)
  have b: "\<not> has_surrogate (ascii ''hunter2'')" by (simp add: has_surrogate_def ascii_def)
  have c: "has_surrogate [0xD800]" by (simp add: has_surrogate_def)
  from check_password_needs_salt [where u = example_user and kdf = example_kdf
      and c = "ascii ''hunter2''" and p = "ascii ''hunter2''" and ent = counting_entropy]
    check_password_needs_salt [where u = example_user and kdf = example_kdf
      and c = "[0xD800]" and p = "ascii ''hunter2''" and ent = counting_entropy]
    a b c
  show ?thesis by blast
qed

text \<open>
  The claim as stated names the attribute error for every candidate; for the
  candidate made of the lone surrogate U+D800 the call raises \<open>UnicodeEncodeError\<close>.
\<close>

theorem check_password_surrogate_without_salt:
  "\<forall>kdf. salt example_user = None \<and>
     check_password kdf example_user [0xD800] = Raises UnicodeEncodeError \<and>
     check_password kdf example_user [0xD800] \<noteq> Raises (AttributeError ''salt'')"
  by (simp add: example_user_def check_password_def utf8_codepoint_def)

section \<open>Properties of \<open>set_email\<close>\<close>

text \<open>
  Claim C7: \<open>set_email\<close> raises \<open>ValueError\<close> when \<open>validate_email\<close> is false and then
  leaves the user as it was, every field included; when \<open>validate_email\<close> is true
  it returns, and the user differs from the old one in the field \<open>email\<close> only, which
  holds the candidate.
\<close>

theorem set_email_all_or_nothing:
  "(\<not> validate_email db c \<longrightarrow>
      set_email db u c = (Raises (ValueError ''Invalid email address''), u)) \<and>
   (validate_email db c \<longrightarrow> set_email db u c = (Returns (), u\<lparr>email := c\<rparr>))"
  by (simp add: set_email_def)

theorem set_email_all_or_nothing_witness:
  "\<not> validate_email latin1_db (ascii ''not-an-email'') \<and>
   set_email latin1_db example_user (ascii ''not-an-email'')
     = (Raises (ValueError ''Invalid email address''), example_user) \<and>
   validate_email latin1_db (ascii ''a.b@c.org'') \<and>
   set_email latin1_db example_user (ascii ''a.b@c.org'')
     = (Returns (), example_user\<lparr>email := ascii ''a.b@c.org''\<rparr>)"
proof -
  have n: "\<not> validate_email latin1_db (ascii ''not-an-email'')"
    by (simp add: email_eval)
  have y: "validate_email latin1_db (ascii ''a.b@c.org'')"
    by (simp add: email_eval)
  from set_email_all_or_nothing [of latin1_db "ascii ''not-an-email''" example_user]
    set_email_all_or_nothing [of latin1_db "ascii ''a.b@c.org''" example_user] n y
  show ?thesis by blast
qed

section \<open>Properties of the range validation and of \<open>save\<close>\<close>

text \<open>
  Claim C6: \<open>validate_age_range\<close> raises \<open>ValueError\<close> exactly when both ages are
  present and the minimum exceeds the maximum, and \<open>validate_people_range\<close> does the
  same for the numbers of people; otherwise each returns, and neither changes the
  event in any case.
\<close>

theorem range_validation:
  "validate_age_range e =
     (if \<exists>lo hi. min_age e = Some lo \<and> max_age e = Some hi \<and> lo > hi
      then (Raises (ValueError ''min_age must be less than or equal to max_age''), e)
      else (Returns (), e)) \<and>
   validate_people_range e =
     (if \<exists>lo hi. min_people e = Some lo \<and> max_people e = Some hi \<and> lo > hi
      then (Raises (ValueError ''min_people must be less than or equal to max_people''), e)
      else (Returns (), e))"
  by (auto simp: validate_age_range_def validate_people_range_def split: option.splits)

theorem range_validation_witness:
  "validate_age_range (example_event\<lparr>min_age := Some 18, max_age := Some 10\<rparr>)
     = (Raises (ValueError ''min_age must be less than or equal to max_age''),
        example_event\<lparr>min_age := Some 18, max_age := Some 10\<rparr>) \<and>
   validate_age_range (example_event\<lparr>min_age := Some 10, max_age := Some 18\<rparr>)
     = (Returns (), example_event\<lparr>min_age := Some 10, max_age := Some 18\<rparr>) \<and>
   validate_age_range (example_event\<lparr>min_age := None, max_age := Some 10\<rparr>)
     = (Returns (), example_event\<lparr>min_age := None, max_age := Some 10\<rparr>) \<and>
   validate_people_range (example_event\<lparr>min_people := Some 5, max_people := Some 2\<rparr>)
     = (Raises (ValueError ''min_people must be less than or equal to max_people''),
        example_event\<lparr>min_people := Some 5, max_people := Some 2\<rparr>) \<and>
   validate_people_range (example_event\<lparr>min_people := Some 2, max_people := None\<rparr>)
     = (Returns (), example_event\<lparr>min_people := Some 2, max_people := None\<rparr>)"
  using range_validation [of "example_event\<lparr>min_age := Some 18, max_age := Some 10\<rparr>"]
    range_validation [of "example_event\<lparr>min_age := Some 10, max_age := Some 18\<rparr>"]
    range_validation [of "example_event\<lparr>min_age := None, max_age := Some 10\<rparr>"]
    range_validation [of "example_event\<lparr>min_people := Some 5, max_people := Some 2\<rparr>"]
    range_validation [of "example_event\<lparr>min_people := Some 2, max_people := None\<rparr>"]
  by simp

lemma validate_age_range_state: "snd (validate_age_range e) = e"
  by (simp add: validate_age_range_def split: option.splits)

lemma validate_people_range_state: "snd (validate_people_range e) = e"
  by (simp add: validate_people_range_def split: option.splits)

lemma save_age_fails:
  "fst (validate_age_range e) = Raises x \<Longrightarrow> save db e ses = (Raises x, e, ses)"
  using validate_age_range_state [of e]
  by (cases "validate_age_range e") (simp add: save_def)

lemma save_people_fails:
  "fst (validate_age_range e) = Returns () \<Longrightarrow> fst (validate_people_range e) = Raises x \<Longrightarrow>
     save db e ses = (Raises x, e, ses)"
  using validate_age_range_state [of e] validate_people_range_state [of e]
  by (cases "validate_age_range e"; cases "validate_people_range e") (simp add: save_def)

lemma save_persists:
  "fst (validate_age_range e) = Returns () \<Longrightarrow> fst (validate_people_range e) = Returns () \<Longrightarrow>
     save db e ses = (db (ses @ [Add e, Commit]), e, ses @ [Add e, Commit])"
  using validate_age_range_state [of e] validate_people_range_state [of e]
  by (cases "validate_age_range e"; cases "validate_people_range e") (simp add: save_def Let_def)

text \<open>
  Claim C2: \<open>save\<close> validates the ages, then the numbers of people, and only then
  turns to the storage collaborator.  When the first validation raises, or the
  first passes and the second raises, \<open>save\<close> raises the same exception and the
  session holds the calls it held before: no \<open>add\<close>, no \<open>commit\<close>.  When both pass,
  exactly \<open>add\<close> of the event and \<open>commit\<close> are issued, in this order.
\<close>

theorem save_validates_first:
  "(fst (validate_age_range e) = Raises x \<longrightarrow> save db e ses = (Raises x, e, ses)) \<and>
   (fst (validate_age_range e) = Returns () \<and> fst (validate_people_range e) = Raises x \<longrightarrow>
      save db e ses = (Raises x, e, ses)) \<and>
   (fst (validate_age_range e) = Returns () \<and> fst (validate_people_range e) = Returns () \<longrightarrow>
      save db e ses = (db (ses @ [Add e, Commit]), e, ses @ [Add e, Commit]))"
  using save_age_fails save_people_fails save_persists by blast


theorem save_validates_first_witness:
  "save accepting_storage (example_event\<lparr>min_people := Some 5, max_people := Some 2\<rparr>) []
     = (Raises (ValueError ''min_people must be less than or equal to max_people''),
        example_event\<lparr>min_people := Some 5, max_people := Some 2\<rparr>, []) \<and>
   save accepting_storage
       (example_event\<lparr>min_age := Some 18, max_age := Some 10, min_people := Some 5,
          max_people := Some 2\<rparr>) []
     = (Raises (ValueError ''min_age must be less than or equal to max_age''),
        example_event\<lparr>min_age := Some 18, max_age := Some 10, min_people := Some 5,
          max_people := Some 2\<rparr>, []) \<and>
   save accepting_storage example_event []
     = (Returns (), example_event, [Add example_event, Commit])"
proof -
  let ?p = "example_event\<lparr>min_people := Some 5, max_people := Some 2\<rparr>"
  let ?a = "example_event\<lparr>min_age := Some 18, max_age := Some 10, min_people := Some 5,
          max_people := Some 2\<rparr>"
  have 1: "fst (validate_age_range ?p) = Returns ()"
    "fst (validate_people_range ?p)
       = Raises (ValueError ''min_people must be less than or equal to max_people'')"
    by (simp_all add: validate_age_range_def validate_people_range_def example_event_def)
  have 2: "fst (validate_age_range ?a)
       = Raises (ValueError ''min_age must be less than or equal to max_age'')"
    by (simp add: validate_age_range_def example_event_def)
  have 3: "fst (validate_age_range example_event) = Returns ()"
    "fst (validate_people_range example_event) = Returns ()"
    by (simp_all add: validate_age_range_def validate_people_range_def example_event_def)
  from save_validates_first [of ?p _ accepting_storage "[]"] 1
  have "save accepting_storage ?p []
     = (Raises (ValueError ''min_people must be less than or equal to max_people''), ?p, [])"
    by blast
  moreover from save_validates_first [of ?a _ accepting_storage "[]"] 2
  have "save accepting_storage ?a []
     = (Raises (ValueError ''min_age must be less than or equal to max_age''), ?a, [])"
    by blast
  moreover from save_validates_first [of example_event _ accepting_storage "[]"] 3
  have "save accepting_storage example_event []
     = (Returns (), example_event, [Add example_event, Commit])"
    by (simp add: accepting_storage_def)
  ultimately show ?thesis by blast
qed

lemma save_Returns:
  assumes "save db e ses = (Returns (), e', ses')"
  shows "fst (validate_age_range e) = Returns () \<and> fst (validate_people_range e) = Returns () \<and>
         e' = e \<and> ses' = ses @ [Add e, Commit] \<and> db ses' = Returns ()"
proof -
  have a: "fst (validate_age_range e) = Returns ()"
  proof (cases "fst (validate_age_range e)")
    case (Returns u)
    then show ?thesis by simp
  next
    case (Raises x)
    with assms save_age_fails [of e x db ses] show ?thesis by simp
  qed
  have p: "fst (validate_people_range e) = Returns ()"
  proof (cases "fst (validate_people_range e)")
    case (Returns u)
    then show ?thesis by simp
  next
    case (Raises x)
    with assms a save_people_fails [of e x db ses] show ?thesis by simp
  qed
  from assms save_persists [OF a p, of db ses] a p show ?thesis by auto
qed

text \<open>
  Claim C8, as the code has it: when \<open>save\<close> returns, the minimum is not above the
  maximum where both are present, for the ages and for the numbers of people; that
  is all the validation of \<open>save\<close> checks.  The minima are non-negative where present
  provided that the storage collaborator enforces the check constraints of
  \<open>__table_args__\<close>.
\<close>

theorem save_invariants:
  assumes "save db e ses = (Returns (), e', ses')"
  shows "(\<forall>lo hi. min_age e = Some lo \<and> max_age e = Some hi \<longrightarrow> lo \<le> hi) \<and>
         (\<forall>lo hi. min_people e = Some lo \<and> max_people e = Some hi \<longrightarrow> lo \<le> hi) \<and>
         (enforces_checks db \<longrightarrow>
            (\<forall>lo. min_age e = Some lo \<longrightarrow> 0 \<le> lo) \<and>
            (\<forall>lo. min_people e = Some lo \<longrightarrow> 0 \<le> lo))"
proof -
  from save_Returns [OF assms]
  have a: "fst (validate_age_range e) = Returns ()"
    and p: "fst (validate_people_range e) = Returns ()"
    and c: "db (ses @ [Add e, Commit]) = Returns ()"
    by auto
  from a have 1: "\<forall>lo hi. min_age e = Some lo \<and> max_age e = Some hi \<longrightarrow> lo \<le> hi"
    by (auto simp: validate_age_range_def split: if_splits)
  from p have 2: "\<forall>lo hi. min_people e = Some lo \<and> max_people e = Some hi \<longrightarrow> lo \<le> hi"
    by (auto simp: validate_people_range_def split: if_splits)
  have 3: "(\<forall>lo. min_age e = Some lo \<longrightarrow> 0 \<le> lo) \<and> (\<forall>lo. min_people e = Some lo \<longrightarrow> 0 \<le> lo)"
    if "enforces_checks db"
  proof -
    from that c have "table_args e"
      unfolding enforces_checks_def by blast
    then show ?thesis
      by (auto simp: table_args_def sql_ge_def)
  qed
  from 1 2 3 show ?thesis by blast
qed

lemma added_append: "added (xs @ ys) = added xs @ added ys"
  by (induction xs rule: added.induct) simp_all

lemma enforces_checks_checking_storage: "enforces_checks checking_storage"
  by (auto simp: enforces_checks_def checking_storage_def added_append split: if_splits)

theorem save_invariants_witness:
  "save checking_storage example_event [] = (Returns (), example_event, [Add example_event, Commit]) \<and>
   enforces_checks checking_storage \<and>
   min_age example_event = Some 10 \<and> max_age example_event = Some 18 \<and>
   min_people example_event = Some 2 \<and> max_people example_event = Some 5 \<and>
   table_args example_event"
proof -
  have s: "save checking_storage example_event []
      = (Returns (), example_event, [Add example_event, Commit])"
    by (simp add: save_def validate_age_range_def validate_people_range_def example_event_def
        checking_storage_def table_args_def sql_ge_def Let_def)
  have f: "min_age example_event = Some 10" "max_age example_event = Some 18"
    "min_people example_event = Some 2" "max_people example_event = Some 5"
    by (simp_all add: example_event_def)
  from save_invariants [OF s] enforces_checks_checking_storage f
  have "table_args example_event"
    by (simp add: table_args_def sql_ge_def)
  with s f enforces_checks_checking_storage show ?thesis by blast
qed

text \<open>
  The claim as stated rests the non-negative minima on the validation of \<open>save\<close>.
  An event with \<open>min_age = -1\<close> and \<open>min_people = -3\<close> passes that validation, and
  \<open>save\<close> returns when the storage collaborator accepts the commit.
\<close>

theorem save_accepts_negative_minimum:
  "save accepting_storage (example_event\<lparr>min_age := Some (- 1), min_people := Some (- 3)\<rparr>) []
     = (Returns (), example_event\<lparr>min_age := Some (- 1), min_people := Some (- 3)\<rparr>,
        [Add (example_event\<lparr>min_age := Some (- 1), min_people := Some (- 3)\<rparr>), Commit]) \<and>
   min_age (example_event\<lparr>min_age := Some (- 1), min_people := Some (- 3)\<rparr>) = Some (- 1) \<and>
   min_people (example_event\<lparr>min_age := Some (- 1), min_people := Some (- 3)\<rparr>) = Some (- 3)"
  by (simp add: save_def validate_age_range_def validate_people_range_def example_event_def
      accepting_storage_def Let_def)

section \<open>Properties of \<open>serialize\<close>\<close>

text \<open>
  Claim C9: \<open>serialize\<close> of a user has exactly the keys \<open>id\<close>, \<open>username\<close>, \<open>email\<close>,
  \<open>first_name\<close>, \<open>last_name\<close>, \<open>followed_users\<close> and \<open>users_following_me\<close>; neither
  \<open>password\<close> nor \<open>salt\<close> is a key, and the result does not depend on them.
  \<open>serialize\<close> of an event has the nineteen keys of its columns and \<open>serialize\<close> of a
  signup the keys \<open>id\<close>, \<open>user_id\<close> and \<open>event_id\<close>.  No key occurs twice, no call
  changes the object, and a second call returns what the first returned.
\<close>

theorem serialize_keys:
  "map fst (fst (User_serialize u)) =
     [''id'', ''username'', ''email'', ''first_name'', ''last_name'', ''followed_users'',
      ''users_following_me''] \<and>
   ''password'' \<notin> set (map fst (fst (User_serialize u))) \<and>
   ''salt'' \<notin> set (map fst (fst (User_serialize u))) \<and>
   fst (User_serialize (u\<lparr>password := pw, salt := sl\<rparr>)) = fst (User_serialize u) \<and>
   map fst (fst (Event_serialize e)) =
     [''id'', ''user_owner'', ''name'', ''type'', ''date'', ''place'', ''duration'',
      ''description'', ''language'', ''gender'', ''price_type'', ''price'', ''min_age'',
      ''max_age'', ''min_people'', ''max_people'', ''lgtbi'', ''pet_friendly'',
      ''kid_friendly''] \<and>
   map fst (fst (Signedup_events_serialize r)) = [''id'', ''user_id'', ''event_id''] \<and>
   distinct (map fst (fst (User_serialize u))) \<and>
   distinct (map fst (fst (Event_serialize e))) \<and>
   distinct (map fst (fst (Signedup_events_serialize r))) \<and>
   snd (User_serialize u) = u \<and>
   snd (Event_serialize e) = e \<and>
   snd (Signedup_events_serialize r) = r \<and>
   User_serialize (snd (User_serialize u)) = User_serialize u \<and>
   Event_serialize (snd (Event_serialize e)) = Event_serialize e \<and>
   Signedup_events_serialize (snd (Signedup_events_serialize r)) = Signedup_events_serialize r"
  by (simp add: User_serialize_def Event_serialize_def Signedup_events_serialize_def)

section \<open>Properties of \<open>validate_date\<close> and \<open>set_date\<close>\<close>

lemmas date_eval = validate_date_def strptime_def format_regex_matches_def directive_d_def
  directive_m_def directive_Y_def re_branch_def re_seq_def re_literal_def re_range_def
  re_digit_def uni_isdigit_def uni_todecimal_def py_int_def datetime_new_def
  days_in_month_def is_leap_def ascii_def

lemma strptime_raises_ValueError: "strptime db s = Raises x \<Longrightarrow> \<exists>msg. x = ValueError msg"
  by (auto simp: strptime_def datetime_new_def split: list.splits if_splits option.splits)

lemma validate_date_returns:
  "validate_date db s = Returns (\<exists>dt. strptime db s = Returns dt)"
proof (cases "strptime db s")
  case (Returns dt)
  then show ?thesis by (simp add: validate_date_def)
next
  case (Raises x)
  with strptime_raises_ValueError [of db s x] show ?thesis
    by (auto simp: validate_date_def)
qed

lemma set_date_cases:
  "set_date db e s =
     (case strptime db s of
        Returns dt \<Rightarrow> (Returns (), e\<lparr>date := DateDatetime dt\<rparr>)
      | Raises x \<Rightarrow> (Raises (ValueError date_format_message), e))"
  by (cases "strptime db s") (simp_all add: set_date_def validate_date_returns)

lemma set_date_raises_iff:
  "fst (set_date db e s) = Raises (ValueError date_format_message) \<longleftrightarrow>
     validate_date db s = Returns False"
  by (cases "strptime db s") (simp_all add: set_date_cases validate_date_returns)

lemma set_date_examples:
  "set_date db e (ascii ''31-12-2024'') =
     (Returns (), e\<lparr>date := DateDatetime
        \<lparr>year = 2024, month = 12, day = 31, hour = 0, minute = 0, second = 0\<rparr>\<rparr>) \<and>
   set_date db e (ascii ''2024-12-31'') = (Raises (ValueError date_format_message), e)"
  by (simp add: set_date_cases) (simp add: date_eval)

lemma spec_date_shape_length: "spec_date_shape db s \<Longrightarrow> length s = 10"
  by (auto simp: spec_date_shape_def)

text \<open>
  Claim C5 at the text \<open>1-2-2024\<close>: \<open>validate_date\<close> returns true and \<open>set_date\<close>
  stores the first of February 2024, although the day and the month have one digit
  each and the text is not of the form \<open>DD-MM-YYYY\<close> that the claim and the message of
  \<open>set_date\<close> ask for.
\<close>

theorem validate_date_accepts_short_fields:
  "validate_date db (ascii ''1-2-2024'') = Returns True \<and>
   set_date db e (ascii ''1-2-2024'') =
     (Returns (), e\<lparr>date := DateDatetime
        \<lparr>year = 2024, month = 2, day = 1, hour = 0, minute = 0, second = 0\<rparr>\<rparr>) \<and>
   \<not> spec_date_shape db (ascii ''1-2-2024'')"
proof -
  have "strptime db (ascii ''1-2-2024'')
      = Returns \<lparr>year = 2024, month = 2, day = 1, hour = 0, minute = 0, second = 0\<rparr>"
    by (simp add: date_eval)
  moreover have "\<not> spec_date_shape db (ascii ''1-2-2024'')"
    using spec_date_shape_length [of db "ascii ''1-2-2024''"] by (auto simp: ascii_def)
  ultimately show ?thesis
    by (simp add: set_date_cases validate_date_returns)
qed

end
